theory Spec2Isabelle
  imports Main "HOL-Library.AList" "HOL-Library.Multiset"
begin

section \<open>Role type aggregation (role\_binding\_service.py)\<close>

text \<open>
  The priority table of \<open>_get_latest_role_type\<close>, a Python dict literal, kept as the
  association list the source writes.
\<close>

definition priority :: "(string \<times> nat) list" where
  "priority = [(''DOMAIN_ADMIN'', 1), (''WORKSPACE_OWNER'', 2),
               (''WORKSPACE_MEMBER'', 3), (''USER'', 4)]"

text \<open>\<open>dict.get(key, default)\<close> of Python.\<close>

definition dict_get :: "('k \<times> 'v) list \<Rightarrow> 'k \<Rightarrow> 'v \<Rightarrow> 'v" where
  "dict_get d k dflt = (case map_of d k of None \<Rightarrow> dflt | Some v \<Rightarrow> v)"

text \<open>
  \<open>RoleBindingService._get_latest_role_type(before, after)\<close>, lines 307-325.
\<close>

definition get_latest_role_type :: "string \<Rightarrow> string \<Rightarrow> string" where
  "get_latest_role_type before after =
     (let before_priority = dict_get priority before 4;
          after_priority = dict_get priority after 4
      in if before_priority < after_priority then before
         else if after \<in> set [''WORKSPACE_OWNER'', ''WORKSPACE_MEMBER''] then ''USER''
         else after)"

text \<open>
  The priority order as the specification words it: \<open>DOMAIN_ADMIN (1) >
  WORKSPACE_OWNER (2) > WORKSPACE_MEMBER (3) > USER (4)\<close>, unrecognised values 4.
  Used only to state the aggregator's specification.
\<close>

definition spec_priority :: "string \<Rightarrow> nat" where
  "spec_priority r =
     (if r = ''DOMAIN_ADMIN'' then 1
      else if r = ''WORKSPACE_OWNER'' then 2
      else if r = ''WORKSPACE_MEMBER'' then 3
      else 4)"

section \<open>Data model (model/user/database.py and the stores)\<close>

text \<open>Every exception the modelled operations raise.  \<open>AttributeError\<close> is Python's own,
  raised by reading an attribute of \<open>None\<close>.\<close>

datatype error =
    ERROR_NOT_FOUND
  | ERROR_NOT_ALLOWED_ROLE_TYPE string string "string list"
  | ERROR_REQUIRED_PARAMETER string
  | ERROR_MFA_ALREADY_ENABLED string
  | ERROR_MFA_ALREADY_DISABLED string
  | ERROR_MFA_NOT_ENABLED string
  | ERROR_NOT_SUPPORTED_MFA_TYPE "string list"
  | ERROR_INVALID_VERIFY_CODE string
  | AttributeError

text \<open>Values held by the \<open>user_mfa\<close> dict: strings and the \<open>options\<close> dict.\<close>

datatype pyval = Str string | Dict "(string \<times> string) list"

text \<open>\<open>class MFA(EmbeddedDocument)\<close>, database.py lines 5-13.\<close>

record MFA =
  state :: string
  mfa_type :: "string option"
  options :: "(string \<times> string) list"

text \<open>\<open>class User(MongoModel)\<close>, database.py lines 16-37: the fields the role binding
  and MFA operations read or write.\<close>

record User =
  user_id :: string
  domain_id :: string
  role_type :: string
  mfa :: "MFA option"

record Role =
  role_id :: string
  role_type :: string
  domain_id :: string

record RoleBinding =
  role_binding_id :: string
  user_id :: string
  role_id :: string
  role_type :: string
  resource_group :: string
  workspace_id :: "string option"
  domain_id :: string

text \<open>The collections behind the managers: documents in storage order; a workspace is
  its pair \<open>(workspace_id, domain_id)\<close>.\<close>

record Store =
  users :: "User list"
  roles :: "Role list"
  workspaces :: "(string \<times> string) list"
  role_bindings :: "RoleBinding list"

text \<open>\<open>MFA.to_dict\<close>, database.py lines 12-13: \<open>dict(self.to_mongo())\<close>; a field whose
  value is \<open>None\<close> has no key.\<close>

definition to_dict :: "MFA \<Rightarrow> (string \<times> pyval) list" where
  "to_dict m =
     [(''state'', Str (state m))]
     @ (case mfa_type m of None \<Rightarrow> [] | Some t \<Rightarrow> [(''mfa_type'', Str t)])
     @ [(''options'', Dict (options m))]"

text \<open>The MFA document built from a dict when \<open>{"mfa": user_mfa}\<close> is written: the field
  defaults are those of database.py lines 6-10 (\<open>state\<close> defaults to \<open>DISABLED\<close>,
  \<open>mfa_type\<close> has none, \<open>options\<close> is an empty dict).\<close>

definition MFA_of_dict :: "(string \<times> pyval) list \<Rightarrow> MFA" where
  "MFA_of_dict d =
     \<lparr>state = (case map_of d ''state'' of Some (Str x) \<Rightarrow> x | _ \<Rightarrow> ''DISABLED''),
      mfa_type = (case map_of d ''mfa_type'' of Some (Str t) \<Rightarrow> Some t | _ \<Rightarrow> None),
      options = (case map_of d ''options'' of Some (Dict x) \<Rightarrow> x | _ \<Rightarrow> [])\<rparr>"

fun replace_first :: "('a \<Rightarrow> bool) \<Rightarrow> 'a \<Rightarrow> 'a list \<Rightarrow> 'a list" where
  "replace_first P y [] = []"
| "replace_first P y (x # xs) = (if P x then y # xs else x # replace_first P y xs)"

fun remove_first :: "('a \<Rightarrow> bool) \<Rightarrow> 'a list \<Rightarrow> 'a list" where
  "remove_first P [] = []"
| "remove_first P (x # xs) = (if P x then xs else x # remove_first P xs)"

section \<open>The managers\<close>

text \<open>Modelled from the spec: \<open>UserManager.get_user\<close> is not among the sources; section 4.1
  step 1 has it resolve the user by \<open>(user_id, domain_id)\<close> and fail with \<open>NotFound\<close> if
  absent.\<close>

definition get_user :: "Store \<Rightarrow> string \<Rightarrow> string \<Rightarrow> error + User" where
  "get_user s uid did =
     (case find (\<lambda>u. User.user_id u = uid \<and> User.domain_id u = did) (users s) of
        None \<Rightarrow> Inl ERROR_NOT_FOUND | Some u \<Rightarrow> Inr u)"

text \<open>The two dicts the services pass to \<open>update_user_by_vo\<close>.\<close>

datatype user_update = Set_role_type string | Set_mfa "(string \<times> pyval) list"

fun apply_user_update :: "user_update \<Rightarrow> User \<Rightarrow> User" where
  "apply_user_update (Set_role_type t) u = u\<lparr>User.role_type := t\<rparr>"
| "apply_user_update (Set_mfa d) u = u\<lparr>mfa := Some (MFA_of_dict d)\<rparr>"

text \<open>Modelled from the spec: \<open>UserManager.update_user_by_vo\<close> is not among the sources;
  section 3 has the user record mutated only through explicit field-level updates.  It
  returns the updated document.\<close>

definition update_user_by_vo :: "user_update \<Rightarrow> User \<Rightarrow> Store \<Rightarrow> User \<times> Store" where
  "update_user_by_vo upd user_vo s =
     (let u' = apply_user_update upd user_vo
      in (u', s\<lparr>users := replace_first
                 (\<lambda>u. User.user_id u = User.user_id user_vo \<and> User.domain_id u = User.domain_id user_vo)
                 u' (users s)\<rparr>))"

text \<open>Modelled from the spec: \<open>WorkspaceManager.get_workspace\<close> is not among the sources;
  section 4.1 step 2 has it resolve the workspace by \<open>(workspace_id, domain_id)\<close> and fail
  with \<open>NotFound\<close> if absent.\<close>

definition get_workspace :: "Store \<Rightarrow> string option \<Rightarrow> string \<Rightarrow> error + unit" where
  "get_workspace s wid did =
     (case wid of None \<Rightarrow> Inl ERROR_NOT_FOUND
      | Some w \<Rightarrow> if (w, did) \<in> set (workspaces s) then Inr () else Inl ERROR_NOT_FOUND)"

text \<open>Modelled from the spec: \<open>RoleManager.get_role\<close> is not among the sources; section 4.1
  step 3 has it resolve the role by \<open>(role_id, domain_id)\<close> and fail with \<open>NotFound\<close> if
  absent.\<close>

definition get_role :: "Store \<Rightarrow> string \<Rightarrow> string \<Rightarrow> error + Role" where
  "get_role s rid did =
     (case find (\<lambda>r. Role.role_id r = rid \<and> Role.domain_id r = did) (roles s) of
        None \<Rightarrow> Inl ERROR_NOT_FOUND | Some r \<Rightarrow> Inr r)"

text \<open>Modelled from the spec: \<open>RoleBindingManager.get_role_binding\<close> is not among the
  sources; section 4.1 has it resolve the binding scoped to \<open>(domain_id, workspace_scope)\<close>
  and fail with \<open>NotFound\<close> if absent or out of scope.  No workspace scope (\<open>None\<close>) is the
  whole domain.\<close>

definition in_scope :: "string \<Rightarrow> string \<Rightarrow> string option \<Rightarrow> RoleBinding \<Rightarrow> bool" where
  "in_scope rbid did ws b \<longleftrightarrow>
     role_binding_id b = rbid \<and> RoleBinding.domain_id b = did
     \<and> (case ws of None \<Rightarrow> True | Some w \<Rightarrow> workspace_id b = Some w)"

definition get_role_binding ::
  "Store \<Rightarrow> string \<Rightarrow> string \<Rightarrow> string option \<Rightarrow> error + RoleBinding" where
  "get_role_binding s rbid did ws =
     (case find (in_scope rbid did ws) (role_bindings s) of
        None \<Rightarrow> Inl ERROR_NOT_FOUND | Some b \<Rightarrow> Inr b)"

text \<open>Modelled from the spec: \<open>RoleBindingManager.filter_role_bindings\<close> is not among the
  sources; section 4.1 (delete, step 2) has it fetch all bindings of the same user in the
  same domain.\<close>

definition filter_role_bindings :: "Store \<Rightarrow> string \<Rightarrow> string \<Rightarrow> RoleBinding list" where
  "filter_role_bindings s did uid =
     filter (\<lambda>b. RoleBinding.domain_id b = did \<and> RoleBinding.user_id b = uid) (role_bindings s)"

text \<open>Modelled from the spec: \<open>RoleBindingManager.create_role_binding\<close> is not among the
  sources; section 4.1 step 6 has it persist the new binding.  The identifier the store
  gives the new document is the parameter \<open>new_id\<close>.\<close>

definition create_role_binding_by_params :: "RoleBinding \<Rightarrow> Store \<Rightarrow> RoleBinding \<times> Store" where
  "create_role_binding_by_params rb s = (rb, s\<lparr>role_bindings := role_bindings s @ [rb]\<rparr>)"

text \<open>Modelled from the spec: \<open>RoleBindingManager.update_role_binding_by_vo\<close> is not among
  the sources; section 4.1 (changeRole, step 5) has it update the binding's
  \<open>role_id\<close>/\<open>role_type\<close> in place.  The document is found by its unique
  \<open>role_binding_id\<close>.\<close>

definition update_role_binding_by_vo ::
  "string \<Rightarrow> string \<Rightarrow> RoleBinding \<Rightarrow> Store \<Rightarrow> RoleBinding \<times> Store" where
  "update_role_binding_by_vo new_role_id new_role_type rb_vo s =
     (let rb' = rb_vo\<lparr>RoleBinding.role_id := new_role_id, RoleBinding.role_type := new_role_type\<rparr>
      in (rb', s\<lparr>role_bindings := replace_first
                  (\<lambda>b. role_binding_id b = role_binding_id rb_vo) rb' (role_bindings s)\<rparr>))"

text \<open>Modelled from the spec: \<open>RoleBindingManager.delete_role_binding_by_vo\<close> is not among
  the sources; section 4.1 (delete, step 4) has it delete the binding.\<close>

definition delete_role_binding_by_vo :: "RoleBinding \<Rightarrow> Store \<Rightarrow> Store" where
  "delete_role_binding_by_vo rb_vo s =
     s\<lparr>role_bindings := remove_first (\<lambda>b. role_binding_id b = role_binding_id rb_vo) (role_bindings s)\<rparr>"

datatype mfa_manager = EmailMFAManager

text \<open>Modelled from the spec: \<open>MFAManager.get_manager_by_mfa_type\<close> is not among the
  sources; section 4.3 has \<open>EMAIL\<close> as the only registered strategy, any other value
  failing with \<open>NotSupportedMfaType\<close>.\<close>

definition get_manager_by_mfa_type :: "string \<Rightarrow> error + mfa_manager" where
  "get_manager_by_mfa_type t =
     (if t = ''EMAIL'' then Inr EmailMFAManager
      else Inl (ERROR_NOT_SUPPORTED_MFA_TYPE [''EMAIL'']))"

section \<open>RoleBindingService (role\_binding\_service.py)\<close>

text \<open>Lines 77-90 of \<open>create_role_binding\<close>: the scope check, \<open>None\<close> when it passes.\<close>

definition create_check :: "string \<Rightarrow> Role \<Rightarrow> error option" where
  "create_check rgroup role_vo =
     (if rgroup = ''DOMAIN'' then
        (if Role.role_type role_vo \<noteq> ''DOMAIN_ADMIN'' then
           Some (ERROR_NOT_ALLOWED_ROLE_TYPE (Role.role_id role_vo) (Role.role_type role_vo)
                   [''DOMAIN_ADMIN''])
         else None)
      else
        (if Role.role_type role_vo \<notin> set [''WORKSPACE_OWNER'', ''WORKSPACE_MEMBER''] then
           Some (ERROR_NOT_ALLOWED_ROLE_TYPE (Role.role_id role_vo) (Role.role_type role_vo)
                   [''WORKSPACE_OWNER'', ''WORKSPACE_MEMBER''])
         else None))"

text \<open>\<open>RoleBindingService.create_role_binding(params)\<close>, lines 56-103.  A raise returns the
  store as it is at that point.\<close>

definition create_role_binding ::
  "string \<Rightarrow> string \<Rightarrow> string \<Rightarrow> string \<Rightarrow> string option \<Rightarrow> string \<Rightarrow> Store
     \<Rightarrow> (error + RoleBinding) \<times> Store" where
  "create_role_binding new_id uid rid rgroup wid did s =
     (case get_user s uid did of
        Inl e \<Rightarrow> (Inl e, s)
      | Inr user_vo \<Rightarrow>
          (case (if rgroup = ''WORKSPACE'' then get_workspace s wid did else Inr ()) of
             Inl e \<Rightarrow> (Inl e, s)
           | Inr _ \<Rightarrow>
               (let wid' = (if rgroup = ''WORKSPACE'' then wid else Some ''*'')
                in case get_role s rid did of
                     Inl e \<Rightarrow> (Inl e, s)
                   | Inr role_vo \<Rightarrow>
                       (case create_check rgroup role_vo of
                          Some e \<Rightarrow> (Inl e, s)
                        | None \<Rightarrow>
                            (let latest_role_type =
                                   get_latest_role_type (User.role_type user_vo) (Role.role_type role_vo);
                                 (user_vo', s1) =
                                   update_user_by_vo (Set_role_type latest_role_type) user_vo s;
                                 (rb, s2) = create_role_binding_by_params
                                   \<lparr>role_binding_id = new_id, user_id = uid, role_id = rid,
                                    role_type = Role.role_type role_vo,
                                    resource_group = rgroup, workspace_id = wid',
                                    domain_id = did\<rparr> s1
                             in (Inr rb, s2))))))"

text \<open>Lines 140-152 of \<open>update_role\<close>: the check against the existing binding's role type.\<close>

definition update_role_check :: "RoleBinding \<Rightarrow> Role \<Rightarrow> error option" where
  "update_role_check rb_vo new_role_vo =
     (if RoleBinding.role_type rb_vo \<in> set [''WORKSPACE_OWNER'', ''WORKSPACE_MEMBER''] then
        (if Role.role_type new_role_vo \<notin> set [''WORKSPACE_OWNER'', ''WORKSPACE_MEMBER''] then
           Some (ERROR_NOT_ALLOWED_ROLE_TYPE (Role.role_id new_role_vo) (Role.role_type new_role_vo)
                   [''WORKSPACE_OWNER'', ''WORKSPACE_MEMBER''])
         else None)
      else if RoleBinding.role_type rb_vo \<noteq> Role.role_type new_role_vo then
        Some (ERROR_NOT_ALLOWED_ROLE_TYPE (Role.role_id new_role_vo) (Role.role_type new_role_vo)
                [RoleBinding.role_type rb_vo])
      else None)"

text \<open>\<open>RoleBindingService.update_role(params)\<close>, lines 110-165.\<close>

definition update_role ::
  "string \<Rightarrow> string \<Rightarrow> string option \<Rightarrow> string \<Rightarrow> Store \<Rightarrow> (error + RoleBinding) \<times> Store" where
  "update_role rbid rid wid did s =
     (case get_role_binding s rbid did wid of
        Inl e \<Rightarrow> (Inl e, s)
      | Inr rb_vo \<Rightarrow>
          (case get_role s rid did of
             Inl e \<Rightarrow> (Inl e, s)
           | Inr new_role_vo \<Rightarrow>
               (case update_role_check rb_vo new_role_vo of
                  Some e \<Rightarrow> (Inl e, s)
                | None \<Rightarrow>
                    (case get_user s (RoleBinding.user_id rb_vo) (RoleBinding.domain_id rb_vo) of
                       Inl e \<Rightarrow> (Inl e, s)
                     | Inr user_vo \<Rightarrow>
                         (let latest_role_type =
                                get_latest_role_type (User.role_type user_vo) (Role.role_type new_role_vo);
                              (user_vo', s1) =
                                update_user_by_vo (Set_role_type latest_role_type) user_vo s;
                              (rb', s2) =
                                update_role_binding_by_vo rid (Role.role_type new_role_vo) rb_vo s1
                          in (Inr rb', s2))))))"

text \<open>The loop of \<open>delete\<close>, lines 200-207: \<open>continue\<close> on the binding being deleted, the
  aggregator on every other one.\<close>

fun delete_loop :: "string \<Rightarrow> string \<Rightarrow> RoleBinding list \<Rightarrow> string" where
  "delete_loop rbid latest_role_type [] = latest_role_type"
| "delete_loop rbid latest_role_type (remain_rb_vo # rest) =
     (if role_binding_id remain_rb_vo = rbid then delete_loop rbid latest_role_type rest
      else delete_loop rbid
             (get_latest_role_type latest_role_type (RoleBinding.role_type remain_rb_vo)) rest)"

text \<open>\<open>RoleBindingService.delete(params)\<close>, lines 172-212.\<close>

definition delete :: "string \<Rightarrow> string option \<Rightarrow> string \<Rightarrow> Store \<Rightarrow> (error + unit) \<times> Store" where
  "delete rbid wid did s =
     (case get_role_binding s rbid did wid of
        Inl e \<Rightarrow> (Inl e, s)
      | Inr rb_vo \<Rightarrow>
          (let remain_rb_vos = filter_role_bindings s did (RoleBinding.user_id rb_vo);
               latest_role_type = delete_loop rbid ''USER'' remain_rb_vos
           in case get_user s (RoleBinding.user_id rb_vo) (RoleBinding.domain_id rb_vo) of
                Inl e \<Rightarrow> (Inl e, s)
              | Inr user_vo \<Rightarrow>
                  (let (user_vo', s1) =
                         update_user_by_vo (Set_role_type latest_role_type) user_vo s
                   in (Inr (), delete_role_binding_by_vo rb_vo s1))))"

section \<open>UserProfileService: the MFA operations (user\_profile\_service.py)\<close>

text \<open>\<open>user_vo.mfa.to_dict() if user_vo.mfa else {}\<close>: a document is truthy, \<open>None\<close> is not.\<close>

definition user_mfa_dict :: "User \<Rightarrow> (string \<times> pyval) list" where
  "user_mfa_dict user_vo = (case mfa user_vo of None \<Rightarrow> [] | Some m \<Rightarrow> to_dict m)"

text \<open>\<open>UserProfileService.enable_mfa(params)\<close>, lines 192-233.  The manager's
  \<open>enable_mfa\<close> sends the verification code and writes nothing to the stores.\<close>

definition enable_mfa ::
  "string \<Rightarrow> string \<Rightarrow> string \<Rightarrow> (string \<times> string) list \<Rightarrow> Store \<Rightarrow> (error + User) \<times> Store" where
  "enable_mfa uid did mtype opts s =
     (case get_user s uid did of
        Inl e \<Rightarrow> (Inl e, s)
      | Inr user_vo \<Rightarrow>
          (let user_mfa = user_mfa_dict user_vo
           in if opts = [] then (Inl (ERROR_REQUIRED_PARAMETER ''options''), s)
              else if dict_get user_mfa ''state'' (Str ''DISABLED'') = Str ''ENABLED''
                then (Inl (ERROR_MFA_ALREADY_ENABLED uid), s)
              else (case get_manager_by_mfa_type mtype of
                      Inl e \<Rightarrow> (Inl e, s)
                    | Inr mfa_manager \<Rightarrow>
                        if mtype = ''EMAIL'' then
                          (let user_mfa1 = AList.update ''mfa_type'' (Str mtype) user_mfa;
                               user_mfa2 = AList.update ''options'' (Dict opts) user_mfa1;
                               user_mfa3 = AList.update ''state''
                                             (dict_get user_mfa2 ''state'' (Str ''DISABLED'')) user_mfa2;
                               (user_vo', s1) = update_user_by_vo (Set_mfa user_mfa3) user_vo s
                           in (Inr user_vo', s1))
                        else (Inl (ERROR_NOT_SUPPORTED_MFA_TYPE [''EMAIL'']), s))))"

text \<open>\<open>UserProfileService.confirm_mfa(params)\<close>, lines 267-306.  \<open>verify\<close> is the answer of
  the manager's \<open>confirm_mfa(credentials, verify_code)\<close>, which depends on the code it
  sent earlier.  Line 285 reads \<open>user_vo.mfa.mfa_type\<close> with no test of \<open>user_vo.mfa\<close>.\<close>

definition confirm_mfa ::
  "(string \<Rightarrow> string \<Rightarrow> string \<Rightarrow> bool) \<Rightarrow> string \<Rightarrow> string \<Rightarrow> string \<Rightarrow> Store
     \<Rightarrow> (error + User) \<times> Store" where
  "confirm_mfa verify uid did verify_code s =
     (case get_user s uid did of
        Inl e \<Rightarrow> (Inl e, s)
      | Inr user_vo \<Rightarrow>
          (case mfa user_vo of
             None \<Rightarrow> (Inl AttributeError, s)
           | Some m \<Rightarrow>
               (case mfa_type m of
                  None \<Rightarrow> (Inl (ERROR_MFA_NOT_ENABLED uid), s)
                | Some mtype \<Rightarrow>
                    if mtype = [] then (Inl (ERROR_MFA_NOT_ENABLED uid), s)
                    else (case get_manager_by_mfa_type mtype of
                            Inl e \<Rightarrow> (Inl e, s)
                          | Inr mfa_manager \<Rightarrow>
                              if mtype = ''EMAIL'' then
                                (if verify uid did verify_code then
                                   (let user_mfa = user_mfa_dict user_vo;
                                        user_mfa' =
                                          (if dict_get user_mfa ''state'' (Str ''DISABLED'') = Str ''ENABLED''
                                           then [(''state'', Str ''DISABLED'')]
                                           else if dict_get user_mfa ''state'' (Str ''DISABLED'') = Str ''DISABLED''
                                           then AList.update ''state'' (Str ''ENABLED'') user_mfa
                                           else user_mfa);
                                        (user_vo', s1) = update_user_by_vo (Set_mfa user_mfa') user_vo s
                                    in (Inr user_vo', s1))
                                 else (Inl (ERROR_INVALID_VERIFY_CODE verify_code), s))
                              else (Inr user_vo, s)))))"

section \<open>Notions the properties are stated with\<close>



text \<open>The full recomputation as the specification words it: the left fold of the
  aggregator from \<open>USER\<close> over a list of role types.\<close>

definition recompute :: "string list \<Rightarrow> string" where
  "recompute ts = foldl get_latest_role_type ''USER'' ts"


definition stored_role_type :: "Store \<Rightarrow> string \<Rightarrow> string \<Rightarrow> string option" where
  "stored_role_type s uid did =
     (case get_user s uid did of Inl e \<Rightarrow> None | Inr u \<Rightarrow> Some (User.role_type u))"

definition stored_mfa :: "Store \<Rightarrow> string \<Rightarrow> string \<Rightarrow> MFA option" where
  "stored_mfa s uid did = (case get_user s uid did of Inl e \<Rightarrow> None | Inr u \<Rightarrow> mfa u)"

text \<open>The rule of changeRole as the specification words it (section 4.1, step 3).\<close>

definition role_change_allowed :: "string \<Rightarrow> string \<Rightarrow> bool" where
  "role_change_allowed existing new =
     (if existing = ''WORKSPACE_OWNER'' \<or> existing = ''WORKSPACE_MEMBER''
      then new = ''WORKSPACE_OWNER'' \<or> new = ''WORKSPACE_MEMBER''
      else new = existing)"



section \<open>A small domain to run the operations on\<close>

definition alice :: User where
  "alice = \<lparr>User.user_id = ''alice'', User.domain_id = ''d1'', User.role_type = ''DOMAIN_ADMIN'', mfa = None\<rparr>"

definition root :: User where
  "root = \<lparr>User.user_id = ''root'', User.domain_id = ''d1'', User.role_type = ''SYSTEM_ADMIN'', mfa = None\<rparr>"

definition bob_mfa :: MFA where
  "bob_mfa = \<lparr>state = ''ENABLED'', mfa_type = Some ''EMAIL'', options = [(''email'', ''bob@example.com'')]\<rparr>"

definition bob :: User where
  "bob = \<lparr>User.user_id = ''bob'', User.domain_id = ''d1'', User.role_type = ''USER'', mfa = Some bob_mfa\<rparr>"

definition carol_mfa :: MFA where
  "carol_mfa = \<lparr>state = ''DISABLED'', mfa_type = Some ''EMAIL'', options = [(''email'', ''carol@example.com'')]\<rparr>"

definition carol :: User where
  "carol = \<lparr>User.user_id = ''carol'', User.domain_id = ''d1'', User.role_type = ''USER'', mfa = Some carol_mfa\<rparr>"

definition role_da :: Role where
  "role_da = \<lparr>Role.role_id = ''role-da'', Role.role_type = ''DOMAIN_ADMIN'', Role.domain_id = ''d1''\<rparr>"

definition role_wo :: Role where
  "role_wo = \<lparr>Role.role_id = ''role-wo'', Role.role_type = ''WORKSPACE_OWNER'', Role.domain_id = ''d1''\<rparr>"

definition role_wm :: Role where
  "role_wm = \<lparr>Role.role_id = ''role-wm'', Role.role_type = ''WORKSPACE_MEMBER'', Role.domain_id = ''d1''\<rparr>"

definition rb1 :: RoleBinding where
  "rb1 = \<lparr>role_binding_id = ''rb-1'', user_id = ''alice'', role_id = ''role-da'',
          role_type = ''DOMAIN_ADMIN'', resource_group = ''DOMAIN'', workspace_id = Some ''*'',
          domain_id = ''d1''\<rparr>"

definition rb2 :: RoleBinding where
  "rb2 = \<lparr>role_binding_id = ''rb-2'', user_id = ''alice'', role_id = ''role-wm'',
          role_type = ''WORKSPACE_MEMBER'', resource_group = ''WORKSPACE'', workspace_id = Some ''w1'',
          domain_id = ''d1''\<rparr>"

definition rb3 :: RoleBinding where
  "rb3 = \<lparr>role_binding_id = ''rb-3'', user_id = ''bob'', role_id = ''role-wo'',
          role_type = ''WORKSPACE_OWNER'', resource_group = ''WORKSPACE'', workspace_id = Some ''w1'',
          domain_id = ''d1''\<rparr>"

definition example_store :: Store where
  "example_store =
     \<lparr>users = [alice, root, bob, carol], roles = [role_da, role_wo, role_wm],
      workspaces = [(''w1'', ''d1'')], role_bindings = [rb1, rb2, rb3]\<rparr>"

definition always_verified :: "string \<Rightarrow> string \<Rightarrow> string \<Rightarrow> bool" where
  "always_verified uid did code = True"

section \<open>Properties of the aggregator\<close>

lemma dict_get_priority: "dict_get priority r 4 = spec_priority r"
  by (simp add: dict_get_def priority_def spec_priority_def)

lemma get_latest_role_type_unfold:
  "get_latest_role_type b a =
     (if spec_priority b < spec_priority a then b
      else if a = ''WORKSPACE_OWNER'' \<or> a = ''WORKSPACE_MEMBER'' then ''USER'' else a)"
  unfolding get_latest_role_type_def Let_def dict_get_priority by simp








lemma delete_loop_foldl:
  "delete_loop rbid acc rbs =
     foldl get_latest_role_type acc
       (map RoleBinding.role_type (filter (\<lambda>b. role_binding_id b \<noteq> rbid) rbs))"
  by (induction rbs arbitrary: acc) simp_all

text \<open>
  C1: for every pair of role-type strings \<open>(before, after)\<close>, the aggregator returns
  \<open>before\<close> when \<open>priority(before) < priority(after)\<close> under the order DOMAIN\_ADMIN (1),
  WORKSPACE\_OWNER (2), WORKSPACE\_MEMBER (3), USER (4), unrecognised values counting as 4;
  otherwise it returns \<open>USER\<close> when \<open>after\<close> is WORKSPACE\_OWNER or WORKSPACE\_MEMBER;
  otherwise it returns \<open>after\<close>.
\<close>

theorem get_latest_role_type_spec:
  "get_latest_role_type before after =
     (if spec_priority before < spec_priority after then before
      else if after = ''WORKSPACE_OWNER'' \<or> after = ''WORKSPACE_MEMBER'' then ''USER''
      else after)"
  by (rule get_latest_role_type_unfold)

theorem get_latest_role_type_spec_witness:
  "get_latest_role_type ''DOMAIN_ADMIN'' ''WORKSPACE_MEMBER'' = ''DOMAIN_ADMIN''
   \<and> get_latest_role_type ''USER'' ''WORKSPACE_OWNER'' = ''USER''
   \<and> get_latest_role_type ''USER'' ''DOMAIN_ADMIN'' = ''DOMAIN_ADMIN''"
  using get_latest_role_type_spec [of "''DOMAIN_ADMIN''" "''WORKSPACE_MEMBER''"]
        get_latest_role_type_spec [of "''USER''" "''WORKSPACE_OWNER''"]
        get_latest_role_type_spec [of "''USER''" "''DOMAIN_ADMIN''"]
  by (simp add: spec_priority_def)




section \<open>The stores\<close>

lemmas ex_defs = example_store_def alice_def root_def bob_def carol_def bob_mfa_def carol_mfa_def
  role_da_def role_wo_def role_wm_def rb1_def rb2_def rb3_def

lemma find_SomeD: "find P xs = Some x \<Longrightarrow> P x \<and> x \<in> set xs"
  by (induction xs) (auto split: if_splits)

lemma find_replace_first:
  "P y \<Longrightarrow> find P xs = Some x \<Longrightarrow> find P (replace_first P y xs) = Some y"
  by (induction xs) (auto split: if_splits)

lemma get_user_ids:
  "get_user s uid did = Inr u \<Longrightarrow> User.user_id u = uid \<and> User.domain_id u = did"
  by (auto simp: get_user_def split: option.splits dest: find_SomeD)

lemma apply_user_update_ids:
  "User.user_id (apply_user_update upd u) = User.user_id u
   \<and> User.domain_id (apply_user_update upd u) = User.domain_id u"
  by (cases upd) simp_all

lemma update_user_by_vo_fst: "fst (update_user_by_vo upd u s) = apply_user_update upd u"
  by (simp add: update_user_by_vo_def Let_def)

lemma update_user_by_vo_bindings:
  "role_bindings (snd (update_user_by_vo upd u s)) = role_bindings s"
  by (simp add: update_user_by_vo_def Let_def)

lemma get_user_update_user_by_vo:
  assumes "get_user s uid did = Inr u"
  shows "get_user (snd (update_user_by_vo upd u s)) uid did = Inr (apply_user_update upd u)"
proof -
  from assms have ids: "User.user_id u = uid" "User.domain_id u = did"
    by (simp_all add: get_user_ids)
  from assms have f: "find (\<lambda>u. User.user_id u = uid \<and> User.domain_id u = did) (users s) = Some u"
    by (auto simp: get_user_def split: option.splits)
  have "find (\<lambda>u. User.user_id u = uid \<and> User.domain_id u = did)
          (replace_first (\<lambda>u. User.user_id u = uid \<and> User.domain_id u = did)
             (apply_user_update upd u) (users s)) = Some (apply_user_update upd u)"
    by (rule find_replace_first [OF _ f]) (simp add: apply_user_update_ids ids)
  then show ?thesis
    by (simp add: get_user_def update_user_by_vo_def Let_def ids)
qed

lemma get_role_binding_scope:
  "get_role_binding s rbid did wid = Inr rb \<Longrightarrow>
     role_binding_id rb = rbid \<and> RoleBinding.domain_id rb = did \<and> rb \<in> set (role_bindings s)"
  by (auto simp: get_role_binding_def in_scope_def split: option.splits dest: find_SomeD)

lemma delete_result:
  assumes rb: "get_role_binding s rbid did wid = Inr rb"
      and u: "get_user s (RoleBinding.user_id rb) did = Inr u"
  shows "delete rbid wid did s =
           (Inr (),
            delete_role_binding_by_vo rb
              (snd (update_user_by_vo
                 (Set_role_type (delete_loop rbid ''USER''
                    (filter_role_bindings s did (RoleBinding.user_id rb)))) u s)))"
proof -
  from rb have "RoleBinding.domain_id rb = did" by (simp add: get_role_binding_scope)
  with rb u show ?thesis
    by (simp add: delete_def Let_def split_beta)
qed

lemma get_user_delete_role_binding_by_vo:
  "get_user (delete_role_binding_by_vo rb s) uid did = get_user s uid did"
  by (simp add: get_user_def delete_role_binding_by_vo_def)

text \<open>
  C3: \<open>delete\<close> recomputes the user's aggregate role type as a left fold of the
  aggregator from \<open>USER\<close> over every remaining binding's role type, the binding being
  deleted left out, and persists that value to the user; the binding is removed; and when
  the user holds no other binding the stored role type is reset to \<open>USER\<close>.
\<close>

theorem delete_recomputes:
  assumes "get_role_binding s rbid did wid = Inr rb"
      and "get_user s (RoleBinding.user_id rb) did = Inr u"
      and "delete rbid wid did s = (r, s')"
  shows "r = Inr ()
     \<and> stored_role_type s' (RoleBinding.user_id rb) did =
         Some (recompute (map RoleBinding.role_type
                 (filter (\<lambda>b. role_binding_id b \<noteq> rbid)
                    (filter_role_bindings s did (RoleBinding.user_id rb)))))
     \<and> role_bindings s' = remove_first (\<lambda>b. role_binding_id b = rbid) (role_bindings s)
     \<and> ((\<forall>b \<in> set (filter_role_bindings s did (RoleBinding.user_id rb)). role_binding_id b = rbid)
          \<longrightarrow> stored_role_type s' (RoleBinding.user_id rb) did = Some ''USER'')"
proof -
  let ?remain = "filter_role_bindings s did (RoleBinding.user_id rb)"
  let ?latest = "delete_loop rbid ''USER'' ?remain"
  let ?s1 = "snd (update_user_by_vo (Set_role_type ?latest) u s)"
  from delete_result [OF assms(1,2)] assms(3)
  have r: "r = Inr ()" and s': "s' = delete_role_binding_by_vo rb ?s1" by simp_all
  have "get_user s' (RoleBinding.user_id rb) did = Inr (apply_user_update (Set_role_type ?latest) u)"
    unfolding s' get_user_delete_role_binding_by_vo
    by (rule get_user_update_user_by_vo [OF assms(2)])
  then have stored: "stored_role_type s' (RoleBinding.user_id rb) did = Some ?latest"
    by (simp add: stored_role_type_def)
  have fold: "?latest = recompute (map RoleBinding.role_type
                 (filter (\<lambda>b. role_binding_id b \<noteq> rbid) ?remain))"
    by (simp add: delete_loop_foldl recompute_def)
  from assms(1) have id: "role_binding_id rb = rbid" by (simp add: get_role_binding_scope)
  have bs: "role_bindings s' = remove_first (\<lambda>b. role_binding_id b = rbid) (role_bindings s)"
    by (simp add: s' delete_role_binding_by_vo_def update_user_by_vo_bindings id)
  have last: "(\<forall>b \<in> set ?remain. role_binding_id b = rbid) \<longrightarrow> ?latest = ''USER''"
  proof
    assume "\<forall>b \<in> set ?remain. role_binding_id b = rbid"
    then have "filter (\<lambda>b. role_binding_id b \<noteq> rbid) ?remain = []"
      by (simp add: filter_empty_conv)
    then show "?latest = ''USER''" by (simp add: delete_loop_foldl)
  qed
  from r stored fold bs last show ?thesis by simp
qed

theorem delete_recomputes_witness:
  "fst (delete ''rb-1'' None ''d1'' example_store) = Inr ()
   \<and> stored_role_type example_store ''alice'' ''d1'' = Some ''DOMAIN_ADMIN''
   \<and> stored_role_type (snd (delete ''rb-1'' None ''d1'' example_store)) ''alice'' ''d1'' = Some ''USER''
   \<and> stored_role_type (snd (delete ''rb-3'' None ''d1'' example_store)) ''bob'' ''d1'' = Some ''USER''"
proof -
  have h1: "get_role_binding example_store ''rb-1'' ''d1'' None = Inr rb1"
    by (simp add: get_role_binding_def in_scope_def ex_defs)
  have h2: "get_user example_store (RoleBinding.user_id rb1) ''d1'' = Inr alice"
    by (simp add: get_user_def ex_defs)
  have h3: "delete ''rb-1'' None ''d1'' example_store =
              (fst (delete ''rb-1'' None ''d1'' example_store),
               snd (delete ''rb-1'' None ''d1'' example_store))" by simp
  have g1: "get_role_binding example_store ''rb-3'' ''d1'' None = Inr rb3"
    by (simp add: get_role_binding_def in_scope_def ex_defs)
  have g2: "get_user example_store (RoleBinding.user_id rb3) ''d1'' = Inr bob"
    by (simp add: get_user_def ex_defs)
  have g3: "delete ''rb-3'' None ''d1'' example_store =
              (fst (delete ''rb-3'' None ''d1'' example_store),
               snd (delete ''rb-3'' None ''d1'' example_store))" by simp
  have a: "filter_role_bindings example_store ''d1'' ''alice'' = [rb1, rb2]"
    by (simp add: filter_role_bindings_def ex_defs)
  have b: "filter_role_bindings example_store ''d1'' ''bob'' = [rb3]"
    by (simp add: filter_role_bindings_def ex_defs)
  have c: "stored_role_type example_store ''alice'' ''d1'' = Some ''DOMAIN_ADMIN''"
    by (simp add: stored_role_type_def get_user_def ex_defs)
  have ua: "RoleBinding.user_id rb1 = ''alice''" "RoleBinding.user_id rb3 = ''bob''"
    by (simp_all add: rb1_def rb3_def)
  from delete_recomputes [OF h1 h2 h3] delete_recomputes [OF g1 g2 g3] c
  show ?thesis
    unfolding ua a b
    by (simp add: recompute_def get_latest_role_type_unfold spec_priority_def rb1_def rb2_def rb3_def)
qed

section \<open>Validation in create and changeRole\<close>

text \<open>
  C5: for every create call with \<open>resource_group = DOMAIN\<close> in which the user and the
  role resolve and the role's type is not DOMAIN\_ADMIN, the operation fails with
  \<open>NotAllowedRoleType\<close> (expected DOMAIN\_ADMIN) and nothing is written: the store, and
  with it the user's stored role type, is unchanged.
\<close>

theorem create_domain_scope_rejects:
  assumes "get_user s uid did = Inr u"
      and "get_role s rid did = Inr role_vo"
      and "Role.role_type role_vo \<noteq> ''DOMAIN_ADMIN''"
  shows "create_role_binding new_id uid rid ''DOMAIN'' wid did s =
           (Inl (ERROR_NOT_ALLOWED_ROLE_TYPE (Role.role_id role_vo) (Role.role_type role_vo)
                   [''DOMAIN_ADMIN'']), s)
         \<and> stored_role_type (snd (create_role_binding new_id uid rid ''DOMAIN'' wid did s)) uid did
             = Some (User.role_type u)"
  using assms
  by (simp add: create_role_binding_def create_check_def stored_role_type_def)

theorem create_domain_scope_rejects_witness:
  "create_role_binding ''rb-9'' ''bob'' ''role-wo'' ''DOMAIN'' None ''d1'' example_store =
     (Inl (ERROR_NOT_ALLOWED_ROLE_TYPE ''role-wo'' ''WORKSPACE_OWNER'' [''DOMAIN_ADMIN'']), example_store)"
proof -
  have h1: "get_user example_store ''bob'' ''d1'' = Inr bob"
    by (simp add: get_user_def ex_defs)
  have h2: "get_role example_store ''role-wo'' ''d1'' = Inr role_wo"
    by (simp add: get_role_def ex_defs)
  have h3: "Role.role_type role_wo \<noteq> ''DOMAIN_ADMIN''" by (simp add: role_wo_def)
  from create_domain_scope_rejects [OF h1 h2 h3, of "''rb-9''" None]
  show ?thesis by (simp add: role_wo_def)
qed

lemma update_role_check_allowed:
  "update_role_check rb_vo new_role_vo = None \<longleftrightarrow>
     role_change_allowed (RoleBinding.role_type rb_vo) (Role.role_type new_role_vo)"
  by (auto simp: update_role_check_def role_change_allowed_def)

lemma update_role_check_error:
  "update_role_check rb_vo new_role_vo = Some e \<Longrightarrow>
     e = ERROR_NOT_ALLOWED_ROLE_TYPE (Role.role_id new_role_vo) (Role.role_type new_role_vo)
           (if RoleBinding.role_type rb_vo \<in> set [''WORKSPACE_OWNER'', ''WORKSPACE_MEMBER'']
            then [''WORKSPACE_OWNER'', ''WORKSPACE_MEMBER''] else [RoleBinding.role_type rb_vo])"
  by (auto simp: update_role_check_def split: if_splits)

text \<open>
  C7: for every changeRole call in which the binding and the new role resolve: if the
  existing binding's role type is WORKSPACE\_OWNER or WORKSPACE\_MEMBER the new role's type
  must be one of those two, otherwise it must equal the existing binding's role type; every
  other combination fails with \<open>NotAllowedRoleType\<close> and writes nothing, and no allowed
  combination fails with \<open>NotAllowedRoleType\<close>.
\<close>

theorem update_role_compatibility:
  assumes "get_role_binding s rbid did wid = Inr rb_vo"
      and "get_role s rid did = Inr new_role_vo"
  shows "(\<not> role_change_allowed (RoleBinding.role_type rb_vo) (Role.role_type new_role_vo) \<longrightarrow>
            update_role rbid rid wid did s =
              (Inl (ERROR_NOT_ALLOWED_ROLE_TYPE (Role.role_id new_role_vo) (Role.role_type new_role_vo)
                      (if RoleBinding.role_type rb_vo \<in> set [''WORKSPACE_OWNER'', ''WORKSPACE_MEMBER'']
                       then [''WORKSPACE_OWNER'', ''WORKSPACE_MEMBER'']
                       else [RoleBinding.role_type rb_vo])), s))
       \<and> (role_change_allowed (RoleBinding.role_type rb_vo) (Role.role_type new_role_vo) \<longrightarrow>
            (\<forall>a b c. fst (update_role rbid rid wid did s) \<noteq> Inl (ERROR_NOT_ALLOWED_ROLE_TYPE a b c)))"
proof (cases "update_role_check rb_vo new_role_vo")
  case None
  then have ok: "role_change_allowed (RoleBinding.role_type rb_vo) (Role.role_type new_role_vo)"
    by (simp add: update_role_check_allowed)
  have "\<forall>a b c. fst (update_role rbid rid wid did s) \<noteq> Inl (ERROR_NOT_ALLOWED_ROLE_TYPE a b c)"
    using assms None
    by (auto simp: update_role_def Let_def split_beta get_user_def split: sum.splits option.splits)
  with ok show ?thesis by simp
next
  case (Some e)
  then have bad: "\<not> role_change_allowed (RoleBinding.role_type rb_vo) (Role.role_type new_role_vo)"
    using update_role_check_allowed [of rb_vo new_role_vo] by simp
  from Some assms have "update_role rbid rid wid did s = (Inl e, s)"
    by (simp add: update_role_def)
  with bad update_role_check_error [OF Some] show ?thesis by simp
qed

theorem update_role_compatibility_witness:
  "update_role ''rb-3'' ''role-da'' None ''d1'' example_store =
     (Inl (ERROR_NOT_ALLOWED_ROLE_TYPE ''role-da'' ''DOMAIN_ADMIN''
             [''WORKSPACE_OWNER'', ''WORKSPACE_MEMBER'']), example_store)
   \<and> update_role ''rb-1'' ''role-wm'' None ''d1'' example_store =
     (Inl (ERROR_NOT_ALLOWED_ROLE_TYPE ''role-wm'' ''WORKSPACE_MEMBER'' [''DOMAIN_ADMIN'']), example_store)
   \<and> (\<forall>a b c. fst (update_role ''rb-3'' ''role-wm'' None ''d1'' example_store)
         \<noteq> Inl (ERROR_NOT_ALLOWED_ROLE_TYPE a b c))"
proof -
  have b3: "get_role_binding example_store ''rb-3'' ''d1'' None = Inr rb3"
    by (simp add: get_role_binding_def in_scope_def ex_defs)
  have b1: "get_role_binding example_store ''rb-1'' ''d1'' None = Inr rb1"
    by (simp add: get_role_binding_def in_scope_def ex_defs)
  have da: "get_role example_store ''role-da'' ''d1'' = Inr role_da"
    by (simp add: get_role_def ex_defs)
  have wm: "get_role example_store ''role-wm'' ''d1'' = Inr role_wm"
    by (simp add: get_role_def ex_defs)
  from update_role_compatibility [OF b3 da] update_role_compatibility [OF b1 wm]
       update_role_compatibility [OF b3 wm]
  show ?thesis
    by (simp add: role_change_allowed_def rb1_def rb3_def role_da_def role_wm_def)
qed

section \<open>The recomputed aggregate\<close>



section \<open>The MFA operations\<close>

lemma dict_get_state_to_dict: "dict_get (to_dict m) ''state'' d = Str (state m)"
  by (simp add: dict_get_def to_dict_def)

lemma MFA_of_dict_toggle_on:
  "MFA_of_dict (AList.update ''state'' (Str ''ENABLED'') (to_dict m)) = m\<lparr>state := ''ENABLED''\<rparr>"
  by (cases m) (simp add: MFA_of_dict_def to_dict_def split: option.splits)

text \<open>
  C4: a user whose MFA sub-record has no configured \<open>mfa_type\<close>, a user with no MFA
  sub-record at all included, should see \<open>confirm\<close> fail with \<open>MfaNotEnabled\<close>.  For the
  user with no sub-record the code does not: line 285 reads \<open>user_vo.mfa.mfa_type\<close>
  before any test of \<open>user_vo.mfa\<close>, so the call ends in Python's \<open>AttributeError\<close>,
  although line 298 of the same function guards the same read with
  \<open>if user_vo.mfa else {}\<close>.  Evaluated here on \<open>alice\<close>, who has no sub-record.
\<close>

theorem confirm_mfa_without_record:
  "get_user example_store ''alice'' ''d1'' = Inr alice \<and> mfa alice = None
   \<and> confirm_mfa always_verified ''alice'' ''d1'' ''123456'' example_store
       = (Inl AttributeError, example_store)"
  by (simp add: confirm_mfa_def get_user_def ex_defs)

text \<open>With a sub-record that has no \<open>mfa_type\<close> (absent or empty) the call does fail with
  \<open>MfaNotEnabled\<close> and writes nothing.\<close>

lemma confirm_mfa_no_mfa_type:
  assumes "get_user s uid did = Inr u" and "mfa u = Some m"
      and "mfa_type m = None \<or> mfa_type m = Some []"
  shows "confirm_mfa verify uid did code s = (Inl (ERROR_MFA_NOT_ENABLED uid), s)"
  using assms by (auto simp: confirm_mfa_def)

text \<open>
  C8, as the claim states it, fails: \<open>options\<close> is tested before the MFA state (lines
  216-220), so for a user whose MFA state is \<open>ENABLED\<close> a call with empty \<open>options\<close> fails
  with \<open>RequiredParameter\<close>, not \<open>MfaAlreadyEnabled\<close>.
\<close>

theorem enable_mfa_counterexample:
  "map_option state (stored_mfa example_store ''bob'' ''d1'') = Some ''ENABLED''
   \<and> enable_mfa ''bob'' ''d1'' ''EMAIL'' [] example_store
       = (Inl (ERROR_REQUIRED_PARAMETER ''options''), example_store)"
  by (simp add: enable_mfa_def stored_mfa_def get_user_def Let_def ex_defs)

text \<open>
  C8, amended: for every user whose current MFA state is \<open>ENABLED\<close> and every non-empty
  \<open>options\<close>, \<open>enable\<close> fails with \<open>MfaAlreadyEnabled\<close> and the store, with the MFA
  record in it, is left untouched; with empty \<open>options\<close> it fails with
  \<open>RequiredParameter\<close> instead, again writing nothing.  A missing MFA sub-record is
  treated as state \<open>DISABLED\<close> and passes the check: the call never fails with
  \<open>MfaAlreadyEnabled\<close>, and for type \<open>EMAIL\<close> with non-empty options it stores
  \<open>{mfa_type, options, state: DISABLED}\<close>.
\<close>

theorem enable_mfa_already_enabled:
  assumes "get_user s uid did = Inr u"
  shows "((\<exists>m. mfa u = Some m \<and> state m = ''ENABLED'') \<and> opts \<noteq> [] \<longrightarrow>
            enable_mfa uid did mtype opts s = (Inl (ERROR_MFA_ALREADY_ENABLED uid), s))
       \<and> (opts = [] \<longrightarrow>
            enable_mfa uid did mtype opts s = (Inl (ERROR_REQUIRED_PARAMETER ''options''), s))
       \<and> (mfa u = None \<longrightarrow>
            (\<forall>x. fst (enable_mfa uid did mtype opts s) \<noteq> Inl (ERROR_MFA_ALREADY_ENABLED x)))
       \<and> (mfa u = None \<and> opts \<noteq> [] \<and> mtype = ''EMAIL'' \<longrightarrow>
            stored_mfa (snd (enable_mfa uid did mtype opts s)) uid did =
              Some \<lparr>state = ''DISABLED'', mfa_type = Some ''EMAIL'', options = opts\<rparr>)"
proof -
  have a: "(\<exists>m. mfa u = Some m \<and> state m = ''ENABLED'') \<and> opts \<noteq> [] \<longrightarrow>
            enable_mfa uid did mtype opts s = (Inl (ERROR_MFA_ALREADY_ENABLED uid), s)"
    using assms by (auto simp: enable_mfa_def Let_def user_mfa_dict_def dict_get_state_to_dict)
  have b: "opts = [] \<longrightarrow>
            enable_mfa uid did mtype opts s = (Inl (ERROR_REQUIRED_PARAMETER ''options''), s)"
    using assms by (simp add: enable_mfa_def Let_def)
  have c: "mfa u = None \<longrightarrow>
            (\<forall>x. fst (enable_mfa uid did mtype opts s) \<noteq> Inl (ERROR_MFA_ALREADY_ENABLED x))"
    using assms
    by (auto simp: enable_mfa_def Let_def user_mfa_dict_def dict_get_def split_beta
        get_manager_by_mfa_type_def)
  have d: "mfa u = None \<and> opts \<noteq> [] \<and> mtype = ''EMAIL'' \<longrightarrow>
            stored_mfa (snd (enable_mfa uid did mtype opts s)) uid did =
              Some \<lparr>state = ''DISABLED'', mfa_type = Some ''EMAIL'', options = opts\<rparr>"
  proof
    assume h: "mfa u = None \<and> opts \<noteq> [] \<and> mtype = ''EMAIL''"
    let ?d = "[(''mfa_type'', Str ''EMAIL''), (''options'', Dict opts), (''state'', Str ''DISABLED'')]"
    from h assms have "snd (enable_mfa uid did mtype opts s) = snd (update_user_by_vo (Set_mfa ?d) u s)"
      by (simp add: enable_mfa_def Let_def user_mfa_dict_def dict_get_def split_beta
          get_manager_by_mfa_type_def)
    then show "stored_mfa (snd (enable_mfa uid did mtype opts s)) uid did =
              Some \<lparr>state = ''DISABLED'', mfa_type = Some ''EMAIL'', options = opts\<rparr>"
      by (simp add: stored_mfa_def get_user_update_user_by_vo [OF assms] MFA_of_dict_def)
  qed
  from a b c d show ?thesis by blast
qed

theorem enable_mfa_already_enabled_witness:
  "enable_mfa ''bob'' ''d1'' ''EMAIL'' [(''email'', ''b@example.com'')] example_store
     = (Inl (ERROR_MFA_ALREADY_ENABLED ''bob''), example_store)
   \<and> stored_mfa (snd (enable_mfa ''alice'' ''d1'' ''EMAIL'' [(''email'', ''a@example.com'')] example_store))
        ''alice'' ''d1''
     = Some \<lparr>state = ''DISABLED'', mfa_type = Some ''EMAIL'', options = [(''email'', ''a@example.com'')]\<rparr>"
proof -
  have hb: "get_user example_store ''bob'' ''d1'' = Inr bob"
    by (simp add: get_user_def ex_defs)
  have ha: "get_user example_store ''alice'' ''d1'' = Inr alice"
    by (simp add: get_user_def ex_defs)
  from enable_mfa_already_enabled [OF hb, of "[(''email'', ''b@example.com'')]" "''EMAIL''"]
       enable_mfa_already_enabled [OF ha, of "[(''email'', ''a@example.com'')]" "''EMAIL''"]
  show ?thesis by (simp add: bob_def bob_mfa_def alice_def)
qed

text \<open>
  C10: when \<open>confirm\<close> succeeds on a user whose MFA state is \<open>ENABLED\<close>, the stored MFA
  sub-record is the one built from \<open>{state: DISABLED}\<close> alone, the previous \<open>mfa_type\<close>
  and \<open>options\<close> discarded; when it succeeds on state \<open>DISABLED\<close>, only \<open>state\<close> changes,
  to \<open>ENABLED\<close>, and \<open>mfa_type\<close> and \<open>options\<close> are kept.
\<close>

theorem confirm_mfa_toggle:
  assumes "get_user s uid did = Inr u" and "mfa u = Some m"
      and "confirm_mfa verify uid did code s = (Inr u', s')"
  shows "(state m = ''ENABLED'' \<longrightarrow>
            stored_mfa s' uid did = Some \<lparr>state = ''DISABLED'', mfa_type = None, options = []\<rparr>)
       \<and> (state m = ''DISABLED'' \<longrightarrow> stored_mfa s' uid did = Some (m\<lparr>state := ''ENABLED''\<rparr>))"
proof -
  let ?d = "if state m = ''ENABLED'' then [(''state'', Str ''DISABLED'')]
            else if state m = ''DISABLED'' then AList.update ''state'' (Str ''ENABLED'') (to_dict m)
            else to_dict m"
  from assms have "s' = snd (update_user_by_vo (Set_mfa ?d) u s)"
    by (auto simp: confirm_mfa_def Let_def split_beta user_mfa_dict_def dict_get_state_to_dict
        get_manager_by_mfa_type_def split: option.splits sum.splits if_splits)
  then have st: "stored_mfa s' uid did = Some (MFA_of_dict ?d)"
    by (simp add: stored_mfa_def get_user_update_user_by_vo [OF assms(1)])
  have off: "state m = ''ENABLED'' \<longrightarrow>
               stored_mfa s' uid did = Some \<lparr>state = ''DISABLED'', mfa_type = None, options = []\<rparr>"
    using st by (simp add: MFA_of_dict_def)
  have on: "state m = ''DISABLED'' \<longrightarrow> stored_mfa s' uid did = Some (m\<lparr>state := ''ENABLED''\<rparr>)"
    using st by (simp add: MFA_of_dict_toggle_on)
  from off on show ?thesis by simp
qed

theorem confirm_mfa_toggle_witness:
  "stored_mfa (snd (confirm_mfa always_verified ''bob'' ''d1'' ''123456'' example_store)) ''bob'' ''d1''
     = Some \<lparr>state = ''DISABLED'', mfa_type = None, options = []\<rparr>
   \<and> stored_mfa (snd (confirm_mfa always_verified ''carol'' ''d1'' ''123456'' example_store)) ''carol'' ''d1''
     = Some \<lparr>state = ''ENABLED'', mfa_type = Some ''EMAIL'', options = [(''email'', ''carol@example.com'')]\<rparr>"
proof -
  have hb: "get_user example_store ''bob'' ''d1'' = Inr bob"
    by (simp add: get_user_def ex_defs)
  have hc: "get_user example_store ''carol'' ''d1'' = Inr carol"
    by (simp add: get_user_def ex_defs)
  have mb: "mfa bob = Some bob_mfa" by (simp add: bob_def)
  have mc: "mfa carol = Some carol_mfa" by (simp add: carol_def)
  obtain ub sb where rb: "confirm_mfa always_verified ''bob'' ''d1'' ''123456'' example_store = (Inr ub, sb)"
    by (simp add: confirm_mfa_def get_user_def ex_defs get_manager_by_mfa_type_def
        always_verified_def Let_def split_beta)
  obtain uc sc where rc: "confirm_mfa always_verified ''carol'' ''d1'' ''123456'' example_store = (Inr uc, sc)"
    by (simp add: confirm_mfa_def get_user_def ex_defs get_manager_by_mfa_type_def
        always_verified_def Let_def split_beta)
  from confirm_mfa_toggle [OF hb mb rb] confirm_mfa_toggle [OF hc mc rc] rb rc
  show ?thesis by (simp add: bob_mfa_def carol_mfa_def)
qed

section \<open>The stored role type and the bindings\<close>
















end
